theory Spec2Isabelle
  imports Complex_Main "HOL-Library.Word"
begin

section \<open>Error kinds\<close>

text \<open>
  The library signals every failure with an exception (\<^verbatim>\<open>aol::Exception\<close> or
  \<^verbatim>\<open>aol::UnimplementedCodeException\<close>). The model returns the error kind as the
  left summand of a sum type.
\<close>

datatype error = InvalidArgument | UnsupportedOperation | PreconditionViolation

section \<open>The generator object\<close>

text \<open>
  \<^verbatim>\<open>class RandomGenerator { unsigned int _seed, _index; std::vector<unsigned int> _y; }\<close>
\<close>

record RandomGenerator =
  seed :: "32 word"
  index :: "32 word"
  y :: "32 word list"

definition getSeed :: "RandomGenerator \<Rightarrow> 32 word" where
  "getSeed g = seed g"

text \<open>
  Modelled from the spec: the words that \<^verbatim>\<open>initializeY\<close> writes. The function is declared in
  the class, its body is in a
  translation unit that is not part of the sources at hand. The specification says that
  state initialisation from a seed deterministically fills all 624 words via a linear
  recurrence over the seed value, and that re-seeding forces full regeneration (an index
  of 624 makes the next request for a word regenerate the whole array). The recurrence
  itself is not given; it is the parameter \<open>step\<close>, which maps the position and the
  previous word to the next word, the word at position 0 being the seed.
\<close>

fun seed_words :: "(nat \<Rightarrow> 32 word \<Rightarrow> 32 word) \<Rightarrow> 32 word \<Rightarrow> nat \<Rightarrow> nat \<Rightarrow> 32 word list" where
  "seed_words step w i 0 = []"
| "seed_words step w i (Suc n) = w # seed_words step (step (Suc i) w) (Suc i) n"

text \<open>
  Modelled from the spec: \<^verbatim>\<open>initializeY\<close> (body not available) writes all 624 words from the
  current seed and sets the index to 624, so that the next request regenerates the array.
\<close>

definition initializeY :: "(nat \<Rightarrow> 32 word \<Rightarrow> 32 word) \<Rightarrow> RandomGenerator \<Rightarrow> RandomGenerator" where
  "initializeY step g = g\<lparr>index := 624, y := seed_words step (seed g) 0 624\<rparr>"

text \<open>
  The constructor \<^verbatim>\<open>RandomGenerator ( seed ) : _seed ( seed ), _index ( 624 ), _y ( 624 )\<close>
  and \<^verbatim>\<open>reSeed\<close>, both of which end in a call of \<^verbatim>\<open>initializeY\<close>.
\<close>

definition RandomGenerator_new :: "(nat \<Rightarrow> 32 word \<Rightarrow> 32 word) \<Rightarrow> 32 word \<Rightarrow> RandomGenerator" where
  "RandomGenerator_new step s = initializeY step \<lparr>seed = s, index = 624, y = replicate 624 0\<rparr>"

definition reSeed :: "(nat \<Rightarrow> 32 word \<Rightarrow> 32 word) \<Rightarrow> 32 word \<Rightarrow> RandomGenerator \<Rightarrow> RandomGenerator" where
  "reSeed step newSeed g = initializeY step (g\<lparr>seed := newSeed\<rparr>)"

text \<open>
  Generator objects live at addresses. Each object holds its own vector \<^verbatim>\<open>_y\<close> by value,
  so a member function called on the object at one address writes that object only.
\<close>

type_synonym generator_store = "nat \<rightharpoonup> RandomGenerator"

definition reSeed_at ::
  "(nat \<Rightarrow> 32 word \<Rightarrow> 32 word) \<Rightarrow> nat \<Rightarrow> 32 word \<Rightarrow> generator_store \<Rightarrow> generator_store" where
  "reSeed_at step a newSeed store =
     (case store a of None \<Rightarrow> store | Some g \<Rightarrow> store(a \<mapsto> reSeed step newSeed g))"

text \<open>
  The private copy constructor and assignment operator: both bodies consist of a single
  \<^verbatim>\<open>throw aol::UnimplementedCodeException\<close>. No object is produced.
\<close>

definition RandomGenerator_copy :: "RandomGenerator \<Rightarrow> error + RandomGenerator" where
  "RandomGenerator_copy other = Inl UnsupportedOperation"

definition RandomGenerator_assign ::
  "RandomGenerator \<Rightarrow> RandomGenerator \<Rightarrow> error + RandomGenerator" where
  "RandomGenerator_assign this other = Inl UnsupportedOperation"

section \<open>Arithmetic of the sampling routines\<close>

text \<open>
  The samplers are templates over a floating type \<^verbatim>\<open>RealType\<close>. Values are modelled as
  reals; every floating operation of the source is the exact operation followed by a
  rounding \<open>rd\<close>, which is a parameter of each sampler. Nothing is assumed about \<open>rd\<close>;
  exact arithmetic is the instance \<open>\<lambda>x. x\<close>. Literals are taken at their decimal value,
  except \<open>1.E-6\<close>, which decides a branch and a key and is taken as the \<^verbatim>\<open>double\<close> it denotes.
  Not-a-number and infinite values are outside the model.

  The body of \<^verbatim>\<open>getNextRnd\<close> is in a translation unit that is not part of the sources at
  hand, so the raw word source is a parameter as well: a function \<open>nxt\<close> from a generator
  state to the next 32-bit word and the successor state. The state type is left open.
\<close>

type_synonym rounding = "real \<Rightarrow> real"

text \<open>
  The \<^verbatim>\<open>double\<close> nearest to \<open>10^-6\<close>, the value of the literals \<^verbatim>\<open>1.E-6\<close> and \<^verbatim>\<open>1.0e-6\<close>. It lies
  below \<open>10^-6\<close>.
\<close>

definition double_1Em6 :: real where
  "double_1Em6 = 4722366482869645 / 2 ^ 72"

text \<open>
  Rounding to the nearest \<^verbatim>\<open>double\<close> on one binade: for \<open>2^e \<le> \<bar>x\<bar> < 2^(e+1)\<close> the
  doubles are the multiples of \<open>2^e / 2^52\<close>. It is an instance of the rounding parameter for
  arguments of that size.
\<close>

definition round_binade :: "nat \<Rightarrow> rounding" where
  "round_binade e x = real_of_int (round (x * 2 ^ 52 / 2 ^ e)) * 2 ^ e / 2 ^ 52"
type_synonym 'g getNextRnd = "'g \<Rightarrow> 32 word \<times> 'g"

text \<open>\<^verbatim>\<open>rangeCheck\<close>: whether the value lies in \<open>[Min, Max)\<close>.\<close>

definition rangeCheck :: "'a::ord \<Rightarrow> 'a \<Rightarrow> 'a \<Rightarrow> bool" where
  "rangeCheck val mn mx = (val < mx \<and> val \<ge> mn)"

text \<open>Conversion of a floating value to an integer type truncates towards zero.\<close>

definition trunc_int :: "real \<Rightarrow> int" where
  "trunc_int x = (if 0 \<le> x then \<lfloor>x\<rfloor> else \<lceil>x\<rceil>)"

definition trunc_uint :: "real \<Rightarrow> nat" where
  "trunc_uint x = nat (trunc_int x)"

text \<open>
  Every sampler is a \<^verbatim>\<open>do { ... } while ( !accepted )\<close> loop without an iteration bound.
  The loop is a partial function: \<open>None\<close> stands for a run that never leaves the loop.
  The body may itself fail to return.
\<close>

partial_function (option) redraw_until ::
  "('s \<Rightarrow> ('a \<times> 's) option) \<Rightarrow> ('a \<Rightarrow> bool) \<Rightarrow> 's \<Rightarrow> ('a \<times> 's) option" where
  "redraw_until body accept s =
     (case body s of
        None \<Rightarrow> None
      | Some (a, s') \<Rightarrow> if accept a then Some (a, s') else redraw_until body accept s')"

text \<open>
  The runs of such a loop that end: either the first pass is accepted, or it is rejected
  and the run continues from the state it left. The result of a run is the value of its
  first accepted pass together with the state after that pass.
\<close>

inductive redraw_run ::
  "('s \<Rightarrow> ('a \<times> 's) option) \<Rightarrow> ('a \<Rightarrow> bool) \<Rightarrow> 's \<Rightarrow> 'a \<times> 's \<Rightarrow> bool"
  for body accept where
  accepted: "body s = Some (a, s') \<Longrightarrow> accept a \<Longrightarrow> redraw_run body accept s (a, s')"
| rejected: "body s = Some (b, t) \<Longrightarrow> \<not> accept b \<Longrightarrow> redraw_run body accept t r
             \<Longrightarrow> redraw_run body accept s r"

text \<open>
  The raw words a generator state has in store: the state after \<open>n\<close> requests, and the
  word that request number \<open>i\<close> (counted from 0) returns.
\<close>

definition after_words :: "'g getNextRnd \<Rightarrow> 'g \<Rightarrow> nat \<Rightarrow> 'g" where
  "after_words nxt g n = ((\<lambda>s. snd (nxt s)) ^^ n) g"

definition raw_word :: "'g getNextRnd \<Rightarrow> 'g \<Rightarrow> nat \<Rightarrow> 32 word" where
  "raw_word nxt g i = fst (nxt (after_words nxt g i))"

section \<open>Uniform samplers\<close>

text \<open>
  \<^verbatim>\<open>rReal<RealType>()\<close>: the value computed from the two words of one pass through the loop
  body, and the pass itself, which draws the more significant word first.
\<close>

definition rReal_value :: "rounding \<Rightarrow> 32 word \<Rightarrow> 32 word \<Rightarrow> real" where
  "rReal_value rd hi lo =
     (let denom = rd (rd 4294967295 + 1);
          moresig = rd (real (unat hi));
          lesssig = rd (rd (real (unat lo)) / denom)
      in rd (rd (moresig + lesssig) / denom))"

definition rReal_pass :: "rounding \<Rightarrow> 'g getNextRnd \<Rightarrow> 'g \<Rightarrow> real \<times> 'g" where
  "rReal_pass rd nxt g =
     (let (hi, g1) = nxt g; (lo, g2) = nxt g1 in (rReal_value rd hi lo, g2))"

definition rReal :: "rounding \<Rightarrow> 'g getNextRnd \<Rightarrow> 'g \<Rightarrow> (real \<times> 'g) option" where
  "rReal rd nxt = redraw_until (\<lambda>g. Some (rReal_pass rd nxt g)) (\<lambda>ret. rangeCheck ret 0 1)"


text \<open>\<^verbatim>\<open>rReal ( max )\<close> and \<^verbatim>\<open>rReal ( min, max )\<close>.\<close>

definition rReal_max :: "rounding \<Rightarrow> 'g getNextRnd \<Rightarrow> real \<Rightarrow> 'g \<Rightarrow> (real \<times> 'g) option" where
  "rReal_max rd nxt mx =
     redraw_until
       (\<lambda>g. case rReal rd nxt g of None \<Rightarrow> None | Some (u, g') \<Rightarrow> Some (rd (mx * u), g'))
       (\<lambda>ret. rangeCheck ret 0 mx)"

definition rReal_min_max ::
  "rounding \<Rightarrow> 'g getNextRnd \<Rightarrow> real \<Rightarrow> real \<Rightarrow> 'g \<Rightarrow> (real \<times> 'g) option" where
  "rReal_min_max rd nxt mn mx =
     redraw_until
       (\<lambda>g. case rReal rd nxt g of
               None \<Rightarrow> None
             | Some (u, g') \<Rightarrow> Some (rd (mn + rd (u * rd (mx - mn))), g'))
       (\<lambda>ret. rangeCheck ret mn mx)"

text \<open>
  The integer samplers call the \<^verbatim>\<open>double\<close> instance of the real samplers on their
  converted bounds and truncate. \<^verbatim>\<open>unsigned int\<close> is modelled by \<open>nat\<close> and \<^verbatim>\<open>int\<close> by
  \<open>int\<close>: no arithmetic is done on the integers, they are only converted and compared.
\<close>

definition rUnsignedInt_max :: "rounding \<Rightarrow> 'g getNextRnd \<Rightarrow> nat \<Rightarrow> 'g \<Rightarrow> (nat \<times> 'g) option" where
  "rUnsignedInt_max rd nxt mx =
     redraw_until
       (\<lambda>g. case rReal_max rd nxt (real mx) g of
               None \<Rightarrow> None
             | Some (r, g') \<Rightarrow> Some (trunc_uint r, g'))
       (\<lambda>ret. rangeCheck ret 0 mx)"

definition rUnsignedInt_min_max ::
  "rounding \<Rightarrow> 'g getNextRnd \<Rightarrow> nat \<Rightarrow> nat \<Rightarrow> 'g \<Rightarrow> (nat \<times> 'g) option" where
  "rUnsignedInt_min_max rd nxt mn mx =
     redraw_until
       (\<lambda>g. case rReal_min_max rd nxt (real mn) (real mx) g of
               None \<Rightarrow> None
             | Some (r, g') \<Rightarrow> Some (trunc_uint r, g'))
       (\<lambda>ret. rangeCheck ret mn mx)"

definition rInt_max :: "rounding \<Rightarrow> 'g getNextRnd \<Rightarrow> int \<Rightarrow> 'g \<Rightarrow> (int \<times> 'g) option" where
  "rInt_max rd nxt mx =
     redraw_until
       (\<lambda>g. case rReal_max rd nxt (real_of_int mx) g of
               None \<Rightarrow> None
             | Some (r, g') \<Rightarrow> Some (trunc_int r, g'))
       (\<lambda>ret. rangeCheck ret 0 mx)"

definition rInt_min_max ::
  "rounding \<Rightarrow> 'g getNextRnd \<Rightarrow> int \<Rightarrow> int \<Rightarrow> 'g \<Rightarrow> (int \<times> 'g) option" where
  "rInt_min_max rd nxt mn mx =
     redraw_until
       (\<lambda>g. case rReal_min_max rd nxt (real_of_int mn) (real_of_int mx) g of
               None \<Rightarrow> None
             | Some (r, g') \<Rightarrow> Some (trunc_int r, g'))
       (\<lambda>ret. rangeCheck ret mn mx)"

text \<open>
  A generator for evaluation: the state is the list of words still to come, and an
  exhausted list yields zeros.
\<close>

fun tape :: "32 word list getNextRnd" where
  "tape [] = (0, [])"
| "tape (w # ws) = (w, ws)"

section \<open>Normal sampler\<close>

text \<open>
  \<^verbatim>\<open>normalrReal ( mean, stddev )\<close>. One pass of the loop draws \<open>x1\<close> and \<open>x2\<close> with
  \<^verbatim>\<open>rReal ( -1, 1 )\<close> and forms \<open>w = x1 * x1 + x2 * x2\<close>; the loop repeats
  \<^verbatim>\<open>while ( w >= 1 || w < 1E-30 )\<close>. The value returned is computed from the last pass.
\<close>

definition normal_pass ::
  "rounding \<Rightarrow> 'g getNextRnd \<Rightarrow> 'g \<Rightarrow> ((real \<times> real \<times> real) \<times> 'g) option" where
  "normal_pass rd nxt g =
     (case rReal_min_max rd nxt (- 1) 1 g of
        None \<Rightarrow> None
      | Some (x1, g1) \<Rightarrow>
          (case rReal_min_max rd nxt (- 1) 1 g1 of
             None \<Rightarrow> None
           | Some (x2, g2) \<Rightarrow> Some ((x1, x2, rd (rd (x1 * x1) + rd (x2 * x2))), g2)))"

definition normal_value :: "rounding \<Rightarrow> real \<Rightarrow> real \<Rightarrow> real \<Rightarrow> real \<Rightarrow> real" where
  "normal_value rd x1 w mean stddev =
     (let w' = rd (sqrt (rd (rd (- 2 * rd (ln w)) / w)));
          x1' = rd (x1 * w')
      in rd (rd (x1' * stddev) + mean))"

definition normalrReal ::
  "rounding \<Rightarrow> 'g getNextRnd \<Rightarrow> real \<Rightarrow> real \<Rightarrow> 'g \<Rightarrow> (real \<times> 'g) option" where
  "normalrReal rd nxt mean stddev g =
     (case redraw_until (normal_pass rd nxt) (\<lambda>(x1, x2, w). \<not> (w \<ge> 1 \<or> w < 1 / 10 ^ 30)) g of
        None \<Rightarrow> None
      | Some ((x1, x2, w), g') \<Rightarrow> Some (normal_value rd x1 w mean stddev, g'))"

text \<open>
  The sampler as the specification words it, for comparison: a pair is rejected unless
  \<open>0 < w < 1\<close>.
\<close>

definition normalrReal_as_claimed ::
  "rounding \<Rightarrow> 'g getNextRnd \<Rightarrow> real \<Rightarrow> real \<Rightarrow> 'g \<Rightarrow> (real \<times> 'g) option" where
  "normalrReal_as_claimed rd nxt mean stddev g =
     (case redraw_until (normal_pass rd nxt) (\<lambda>(x1, x2, w). 0 < w \<and> w < 1) g of
        None \<Rightarrow> None
      | Some ((x1, x2, w), g') \<Rightarrow> Some (normal_value rd x1 w mean stddev, g'))"

section \<open>Logarithm of the factorial\<close>

text \<open>
  \<^verbatim>\<open>LnFac\<close> keeps two function-local statics: the table \<^verbatim>\<open>fac_table[FAK_LEN]\<close> with
  \<^verbatim>\<open>FAK_LEN = 100\<close> and the flag \<^verbatim>\<open>initialized\<close>. They are the state of the function,
  passed in and returned. At program start the table holds zeros and the flag is clear.
\<close>

record LnFac_static =
  fac_table :: "real list"
  initialized :: bool

definition LnFac_static_start :: LnFac_static where
  "LnFac_static_start = \<lparr>fac_table = replicate 100 0, initialized = False\<rparr>"

definition C0 :: real where "C0 = 0.918938533204672722"
definition C1 :: "rounding \<Rightarrow> real" where "C1 rd = rd (1 / 12)"
definition C3 :: "rounding \<Rightarrow> real" where "C3 rd = rd (- 1 / 360)"

text \<open>
  The initialisation loop
  \<^verbatim>\<open>sum = fac_table[0] = 0.; for ( i = 1; i < FAK_LEN; ++i ) { sum += log ( i ); fac_table[i] = sum; }\<close>
  carries the pair of the running sum and the table.
\<close>

definition fill_step :: "rounding \<Rightarrow> nat \<Rightarrow> real \<times> real list \<Rightarrow> real \<times> real list" where
  "fill_step rd i = (\<lambda>(sum, tbl). let sum' = rd (sum + rd (ln (real i))) in (sum', tbl[i := sum']))"

definition fill_fac_table :: "rounding \<Rightarrow> real list \<Rightarrow> real list" where
  "fill_fac_table rd tbl = snd (fold (fill_step rd) [1..<100] (0, tbl[0 := 0]))"

definition LnFac :: "rounding \<Rightarrow> int \<Rightarrow> LnFac_static \<Rightarrow> (error + real) \<times> LnFac_static" where
  "LnFac rd n st =
     (if n < 100 then
        if n \<le> 1 then
          if n < 0 then (Inl InvalidArgument, st) else (Inr 0, st)
        else
          let st' = (if \<not> initialized st
                     then st\<lparr>fac_table := fill_fac_table rd (fac_table st), initialized := True\<rparr>
                     else st)
          in (Inr (fac_table st' ! nat n), st')
      else
        let r = rd (1 / real_of_int n) in
        (Inr (rd (rd (rd (rd (rd (real_of_int n + 0.5) * rd (ln (real_of_int n)))
                          - real_of_int n) + C0)
                  + rd (r * rd (C1 rd + rd (rd (r * r) * C3 rd))))), st))"




section \<open>Poisson sampler\<close>

text \<open>
  \<^verbatim>\<open>poissonrInt ( Lambda )\<close>, at the instance \<^verbatim>\<open>RealType = double\<close>, where the \<^verbatim>\<open>double\<close>
  locals and the \<^verbatim>\<open>RealType\<close> locals share one arithmetic. The state is the generator
  together with the statics of \<^verbatim>\<open>LnFac\<close>; an exception leaves the state as it is at the
  \<^verbatim>\<open>throw\<close>. \<^verbatim>\<open>aol::Sqr\<close> is the square of its argument.
\<close>

definition SHAT1 :: real where "SHAT1 = 2.943035529371538573"
definition SHAT2 :: real where "SHAT2 = 0.8989161620588987408"

definition Sqr :: "rounding \<Rightarrow> real \<Rightarrow> real" where
  "Sqr rd a = rd (a * a)"

text \<open>The branch \<open>0 < Lambda < 1.E-6\<close>.\<close>

definition poisson_low :: "rounding \<Rightarrow> 'g getNextRnd \<Rightarrow> real \<Rightarrow> 'g \<Rightarrow> (int \<times> 'g) option" where
  "poisson_low rd nxt Lambda g =
     (let d = rd (sqrt Lambda) in
      case rReal rd nxt g of
        None \<Rightarrow> None
      | Some (u1, g1) \<Rightarrow>
          if u1 \<ge> d then Some (0, g1)
          else
            (case rReal rd nxt g1 of
               None \<Rightarrow> None
             | Some (u2, g2) \<Rightarrow>
                 let r = rd (u2 * d) in
                 if r > rd (Lambda * rd (1 - Lambda)) then Some (0, g2)
                 else if r > rd (rd (0.5 * Sqr rd Lambda) * rd (1 - Lambda)) then Some (1, g2)
                 else Some (2, g2)))"

text \<open>
  The branch \<open>1.E-6 \<le> Lambda < 17\<close>. The inner \<^verbatim>\<open>do ... while ( x <= bound )\<close> with
  \<^verbatim>\<open>bound = 130\<close> either returns a count or runs out, and then the enclosing
  \<^verbatim>\<open>while ( true )\<close> starts over with a fresh draw.
\<close>

function poisson_walk :: "rounding \<Rightarrow> real \<Rightarrow> real \<Rightarrow> real \<Rightarrow> int \<Rightarrow> int option" where
  "poisson_walk rd Lambda r f x =
     (let r1 = rd (r - f) in
      if r1 \<le> 0 then Some x
      else
        let x1 = x + 1;
            f1 = rd (f * Lambda);
            r2 = rd (r1 * real_of_int x1)
        in if x1 \<le> 130 then poisson_walk rd Lambda r2 f1 x1 else None)"
  by pat_completeness auto
termination
  by (relation "measure (\<lambda>(rd, Lambda, r, f, x). nat (131 - x))") auto

declare poisson_walk.simps [simp del]

definition poisson_direct_pass ::
  "rounding \<Rightarrow> 'g getNextRnd \<Rightarrow> real \<Rightarrow> 'g \<Rightarrow> (int option \<times> 'g) option" where
  "poisson_direct_pass rd nxt Lambda g =
     (let pois_f0 = rd (exp (- Lambda)) in
      case rReal rd nxt g of
        None \<Rightarrow> None
      | Some (r, g') \<Rightarrow> Some (poisson_walk rd Lambda r pois_f0 0, g'))"

definition poisson_direct :: "rounding \<Rightarrow> 'g getNextRnd \<Rightarrow> real \<Rightarrow> 'g \<Rightarrow> (int \<times> 'g) option" where
  "poisson_direct rd nxt Lambda g =
     (case redraw_until (poisson_direct_pass rd nxt Lambda) (\<lambda>res. res \<noteq> None) g of
        None \<Rightarrow> None
      | Some (None, g') \<Rightarrow> None
      | Some (Some x, g') \<Rightarrow> Some (x, g'))"

text \<open>
  The branch \<open>17 \<le> Lambda \<le> 2.E9\<close>. One pass of the \<^verbatim>\<open>while ( true )\<close> loop ends in
  \<^verbatim>\<open>continue\<close> (\<open>Inr None\<close>), in \<^verbatim>\<open>break\<close> with the count \<open>k\<close> (\<open>Inr (Some k)\<close>), or in
  an exception of \<^verbatim>\<open>LnFac\<close> (\<open>Inl\<close>).
\<close>

definition poisson_ratio_pass ::
  "rounding \<Rightarrow> 'g getNextRnd \<Rightarrow> real \<Rightarrow> real \<Rightarrow> real \<Rightarrow> real \<Rightarrow> int \<Rightarrow>
   'g \<times> LnFac_static \<Rightarrow> ((error + int option) \<times> 'g \<times> LnFac_static) option" where
  "poisson_ratio_pass rd nxt pois_a pois_h pois_g pois_f0 pois_bound = (\<lambda>(g, st).
     case rReal rd nxt g of
       None \<Rightarrow> None
     | Some (u, g1) \<Rightarrow>
         if u = 0 then Some (Inr None, g1, st)
         else
           (case rReal rd nxt g1 of
              None \<Rightarrow> None
            | Some (u2, g2) \<Rightarrow>
                let x = rd (pois_a + rd (rd (pois_h * rd (u2 - 0.5)) / u)) in
                if x < 0 \<or> x \<ge> real_of_int pois_bound then Some (Inr None, g2, st)
                else
                  let k = trunc_int x in
                  (case LnFac rd k st of
                     (Inl e, st') \<Rightarrow> Some (Inl e, g2, st')
                   | (Inr lnfac_k, st') \<Rightarrow>
                       let lf = rd (rd (rd (real_of_int k * pois_g) - lnfac_k) - pois_f0) in
                       if lf \<ge> rd (rd (u * rd (4 - u)) - 3) then Some (Inr (Some k), g2, st')
                       else if rd (u * rd (u - lf)) > 1 then Some (Inr None, g2, st')
                       else if rd (2 * rd (ln u)) \<le> lf then Some (Inr (Some k), g2, st')
                       else Some (Inr None, g2, st'))))"

definition poisson_ratio ::
  "rounding \<Rightarrow> 'g getNextRnd \<Rightarrow> real \<Rightarrow> 'g \<times> LnFac_static \<Rightarrow>
   ((error + int) \<times> 'g \<times> LnFac_static) option" where
  "poisson_ratio rd nxt Lambda = (\<lambda>(g, st).
     let pois_a = rd (Lambda + 0.5);
         mode = trunc_int Lambda;
         pois_g = rd (ln Lambda)
     in case LnFac rd mode st of
          (Inl e, st1) \<Rightarrow> Some (Inl e, g, st1)
        | (Inr lnfac_mode, st1) \<Rightarrow>
            let pois_f0 = rd (rd (real_of_int mode * pois_g) - lnfac_mode);
                pois_h = rd (rd (sqrt (rd (SHAT1 * pois_a))) + SHAT2);
                pois_bound = trunc_int (rd (pois_a + rd (6 * pois_h)))
            in (case redraw_until
                       (poisson_ratio_pass rd nxt pois_a pois_h pois_g pois_f0 pois_bound)
                       (\<lambda>res. res \<noteq> Inr None) (g, st1) of
                  None \<Rightarrow> None
                | Some (Inl e, s') \<Rightarrow> Some (Inl e, s')
                | Some (Inr None, s') \<Rightarrow> None
                | Some (Inr (Some k), s') \<Rightarrow> Some (Inr k, s')))"

definition poissonrInt ::
  "rounding \<Rightarrow> 'g getNextRnd \<Rightarrow> real \<Rightarrow> 'g \<times> LnFac_static \<Rightarrow>
   ((error + int) \<times> 'g \<times> LnFac_static) option" where
  "poissonrInt rd nxt Lambda = (\<lambda>(g, st).
     if Lambda < 17 then
       if Lambda < double_1Em6 then
         if Lambda < 0 then Some (Inl InvalidArgument, g, st)
         else if Lambda = 0 then Some (Inr 0, g, st)
         else (case poisson_low rd nxt Lambda g of
                 None \<Rightarrow> None
               | Some (x, g') \<Rightarrow> Some (Inr x, g', st))
       else (case poisson_direct rd nxt Lambda g of
               None \<Rightarrow> None
             | Some (x, g') \<Rightarrow> Some (Inr x, g', st))
     else if Lambda > 2000000000 then Some (Inl InvalidArgument, g, st)
     else poisson_ratio rd nxt Lambda (g, st))"

section \<open>Probability distributions\<close>

text \<open>
  \<^verbatim>\<open>ProbDistributionFunctionAnyD\<close>: the sample count and the three cached distances.
\<close>

record ProbDistributionFunctionAnyD =
  nSamples :: nat
  L2Dist :: real
  LInfDist :: real
  CvMDist :: real

text \<open>
  The unscaled accessors are defined in the class body; each is a single \<^verbatim>\<open>return\<close> of a
  field. The result is a sum so that it can be compared with an exception.
\<close>

definition getL2Dist :: "ProbDistributionFunctionAnyD \<Rightarrow> error + real" where
  "getL2Dist p = Inr (L2Dist p)"

definition getLInfDist :: "ProbDistributionFunctionAnyD \<Rightarrow> error + real" where
  "getLInfDist p = Inr (LInfDist p)"

definition getKSDist :: "ProbDistributionFunctionAnyD \<Rightarrow> error + real" where
  "getKSDist p = Inr (LInfDist p)"

definition getCvMDist :: "ProbDistributionFunctionAnyD \<Rightarrow> error + real" where
  "getCvMDist p = Inr (CvMDist p)"

text \<open>
  Modelled from the spec: \<^verbatim>\<open>computePDFdistTo\<close> and the scaled accessors
  \<^verbatim>\<open>getScaledKSDistanceTo\<close>, \<^verbatim>\<open>getScaledCvMDistanceTo\<close> and \<^verbatim>\<open>getScaledL2DistanceTo\<close> are only
  declared in the header; their bodies are not part of the sources at hand. The
  specification says that the comparison must be invoked before the scaled accessors are
  valid, that requesting scaled distances before it is a precondition violation, and that
  a scaled accessor applies the factor \<open>sqrt (n0 * n1 / (n0 + n1))\<close> to the unscaled
  distance. Whether a comparison has run is recorded next to the object; the distances
  that the comparison computes from the two tables are passed in.
\<close>

text \<open>
  Modelled from the spec: a distribution object together with the fact whether
  \<^verbatim>\<open>computePDFdistTo\<close> has been invoked on it.
\<close>

record compared_distribution =
  base :: ProbDistributionFunctionAnyD
  compared :: bool

text \<open>
  Modelled from the spec: \<^verbatim>\<open>computePDFdistTo\<close> (body not available) stores the three
  distances and marks the object as compared.
\<close>

definition computePDFdistTo ::
  "real \<times> real \<times> real \<Rightarrow> compared_distribution \<Rightarrow> compared_distribution" where
  "computePDFdistTo dists this =
     (case dists of (l2, linf, cvm) \<Rightarrow>
        \<lparr>base = (base this)\<lparr>L2Dist := l2, LInfDist := linf, CvMDist := cvm\<rparr>, compared = True\<rparr>)"

text \<open>
  Modelled from the spec: the sample-size factor \<open>sqrt (n0 * n1 / (n0 + n1))\<close> of the scaled
  accessors (bodies not available).
\<close>

definition sample_size_factor :: "nat \<Rightarrow> nat \<Rightarrow> real" where
  "sample_size_factor n0 n1 = sqrt (real n0 * real n1 / (real n0 + real n1))"

text \<open>
  Modelled from the spec: \<^verbatim>\<open>getScaledKSDistanceTo\<close> (body not available) is a precondition
  violation before a comparison and the scaled \<^verbatim>\<open>_LInfDist\<close> after it.
\<close>

definition getScaledKSDistanceTo ::
  "compared_distribution \<Rightarrow> compared_distribution \<Rightarrow> error + real" where
  "getScaledKSDistanceTo this other =
     (if \<not> compared this then Inl PreconditionViolation
      else Inr (sample_size_factor (nSamples (base this)) (nSamples (base other))
                * LInfDist (base this)))"

text \<open>
  Modelled from the spec: \<^verbatim>\<open>getScaledCvMDistanceTo\<close> (body not available), likewise for
  \<^verbatim>\<open>_CvMDist\<close>.
\<close>

definition getScaledCvMDistanceTo ::
  "compared_distribution \<Rightarrow> compared_distribution \<Rightarrow> error + real" where
  "getScaledCvMDistanceTo this other =
     (if \<not> compared this then Inl PreconditionViolation
      else Inr (sample_size_factor (nSamples (base this)) (nSamples (base other))
                * CvMDist (base this)))"

text \<open>
  Modelled from the spec: \<^verbatim>\<open>getScaledL2DistanceTo\<close> (body not available), likewise for
  \<^verbatim>\<open>_L2Dist\<close>.
\<close>

definition getScaledL2DistanceTo ::
  "compared_distribution \<Rightarrow> compared_distribution \<Rightarrow> error + real" where
  "getScaledL2DistanceTo this other =
     (if \<not> compared this then Inl PreconditionViolation
      else Inr (sample_size_factor (nSamples (base this)) (nSamples (base other))
                * L2Dist (base this)))"

section \<open>Sampling from a given distribution\<close>

text \<open>
  The cumulative table \<^verbatim>\<open>std::map<RealType, RealType>\<close> is a list of key-value pairs in
  ascending key order without repeated keys. \<^verbatim>\<open>pdf[k] = v\<close> overwrites the entry with key
  \<open>k\<close> or inserts one at its place in the order.
\<close>

type_synonym table = "(real \<times> real) list"

fun map_assign :: "real \<Rightarrow> real \<Rightarrow> table \<Rightarrow> table" where
  "map_assign k v [] = [(k, v)]"
| "map_assign k v ((k', v') # m) =
     (if k < k' then (k, v) # (k', v') # m
      else if k = k' then (k, v) # m
      else (k', v') # map_assign k v m)"

fun map_find :: "real \<Rightarrow> table \<Rightarrow> real option" where
  "map_find k [] = None"
| "map_find k ((k', v') # m) = (if k = k' then Some v' else map_find k m)"

text \<open>
  Modelled from the spec: the class \<^verbatim>\<open>aol::DiscreteValueInterpolator\<close> with \<^verbatim>\<open>setVals\<close> and
  \<^verbatim>\<open>invertIfMonotonic\<close> is not part of the sources at hand. The specification says that
  construction builds a monotonic piecewise-linear interpolant mapping cumulative
  probability to value, and that requesting an inverse-CDF sampler from a non-monotonic
  cumulative table is a precondition violation. The interpolant is represented by its
  table of nodes; inverting exchanges the two components of every node. What counts as
  monotonic is not spelled out, so the test is the parameter \<open>monotonic\<close>.
\<close>

record DiscreteValueInterpolator =
  vals :: table

text \<open>
  Modelled from the spec: \<^verbatim>\<open>setVals\<close> (class not available) stores the table of nodes.
\<close>

definition setVals :: "table \<Rightarrow> DiscreteValueInterpolator \<Rightarrow> DiscreteValueInterpolator" where
  "setVals m dvi = dvi\<lparr>vals := m\<rparr>"

text \<open>
  Modelled from the spec: \<^verbatim>\<open>invertIfMonotonic\<close> (class not available) inverts a table that
  passes the test and is a precondition violation on one that does not.
\<close>

definition invertIfMonotonic ::
  "(table \<Rightarrow> bool) \<Rightarrow> DiscreteValueInterpolator \<Rightarrow> error + DiscreteValueInterpolator" where
  "invertIfMonotonic monotonic dvi =
     (if monotonic (vals dvi) then Inr (dvi\<lparr>vals := map (\<lambda>(k, v). (v, k)) (vals dvi)\<rparr>)
      else Inl PreconditionViolation)"

text \<open>
  \<^verbatim>\<open>PRNGForGivenDistr1D::init\<close>: copy the table of the given distribution, read the first
  key, assign 0 at that key minus \<open>1.0e-6\<close>, hand the copy to the interpolator and invert.
  Reading the first key of an empty table has no defined behaviour; the model gives
  \<open>None\<close> there. \<open>anchored\<close> is the copy after the assignment.
\<close>

definition anchored :: "rounding \<Rightarrow> table \<Rightarrow> table option" where
  "anchored rd pdf =
     (case pdf of
        [] \<Rightarrow> None
      | (zval, p) # rest \<Rightarrow> Some (map_assign (rd (zval - double_1Em6)) 0 pdf))"

definition PRNGForGivenDistr1D_init ::
  "rounding \<Rightarrow> (table \<Rightarrow> bool) \<Rightarrow> table \<Rightarrow> DiscreteValueInterpolator \<Rightarrow>
   (error + DiscreteValueInterpolator) option" where
  "PRNGForGivenDistr1D_init rd monotonic GivenDistr_pdf dvi =
     (case anchored rd GivenDistr_pdf of
        None \<Rightarrow> None
      | Some pdf \<Rightarrow> Some (invertIfMonotonic monotonic (setVals pdf dvi)))"

section \<open>Theorems\<close>

subsection \<open>Loops that redraw\<close>

lemma redraw_run_imp: "redraw_run body accept s r \<Longrightarrow> redraw_until body accept s = Some r"
  by (induction rule: redraw_run.induct) (simp_all add: redraw_until.simps)

lemma redraw_until_imp:
  assumes "redraw_until body accept s = Some r"
  shows "redraw_run body accept s r"
  by (rule redraw_until.raw_induct [where P = redraw_run, OF _ assms])
     (auto split: option.splits if_splits prod.splits intro: redraw_run.intros)

lemma redraw_until_iff: "redraw_until body accept s = Some r \<longleftrightarrow> redraw_run body accept s r"
  by (rule iffI) (erule redraw_until_imp, erule redraw_run_imp)

lemma redraw_run_accept: "redraw_run body accept s r \<Longrightarrow> accept (fst r)"
  by (induction rule: redraw_run.induct) simp_all

lemma redraw_run_last: "redraw_run body accept s r \<Longrightarrow> \<exists>t. body t = Some r"
  by (induction rule: redraw_run.induct) auto

lemma redraw_until_accept:
  "redraw_until body accept s = Some (a, s') \<Longrightarrow> accept a"
  using redraw_run_accept [OF redraw_until_imp] by fastforce

lemma redraw_until_last:
  "redraw_until body accept s = Some r \<Longrightarrow> \<exists>t. body t = Some r"
  using redraw_run_last [OF redraw_until_imp] .

subsection \<open>The uniform samplers\<close>











lemma tape_pass:
  "rReal (\<lambda>x. x) tape (hi # lo # ws) = Some (rReal_value (\<lambda>x. x) hi lo, ws)"
proof -
  have "unat lo < 4294967296" "unat hi < 4294967296"
    using unsigned_less [of lo, where 'a = nat] unsigned_less [of hi, where 'a = nat] by simp_all
  then have "unat lo < 4294967296" "unat hi \<le> 4294967295" by linarith+
  then have "real (unat lo) < real (4294967296 :: nat)" "real (unat hi) \<le> real (4294967295 :: nat)"
    by (simp_all only: of_nat_less_iff of_nat_le_iff)
  moreover have "0 \<le> real (unat lo)" "0 \<le> real (unat hi)" by (rule of_nat_0_le_iff)+
  ultimately have "rangeCheck (rReal_value (\<lambda>x. x) hi lo) 0 1"
    by (simp add: rangeCheck_def rReal_value_def field_simps)
  then show ?thesis
    by (simp add: rReal_def rReal_pass_def redraw_until.simps)
qed

text \<open>
  Claim C3. Whatever a uniform sampler returns lies in its half-open range, for every
  rounding, every source of raw words, every state and all bounds.
\<close>

theorem uniform_samplers_in_range:
  "(rReal rd nxt g0 = Some (v0, h0) \<longrightarrow> 0 \<le> v0 \<and> v0 < 1)
   \<and> (rReal_max rd nxt mx1 g1 = Some (v1, h1) \<longrightarrow> 0 \<le> v1 \<and> v1 < mx1)
   \<and> (rReal_min_max rd nxt mn2 mx2 g2 = Some (v2, h2) \<longrightarrow> mn2 \<le> v2 \<and> v2 < mx2)
   \<and> (rInt_max rd nxt imx3 g3 = Some (i3, h3) \<longrightarrow> 0 \<le> i3 \<and> i3 < imx3)
   \<and> (rInt_min_max rd nxt imn4 imx4 g4 = Some (i4, h4) \<longrightarrow> imn4 \<le> i4 \<and> i4 < imx4)
   \<and> (rUnsignedInt_max rd nxt umx5 g5 = Some (u5, h5) \<longrightarrow> 0 \<le> u5 \<and> u5 < umx5)
   \<and> (rUnsignedInt_min_max rd nxt umn6 umx6 g6 = Some (u6, h6) \<longrightarrow> umn6 \<le> u6 \<and> u6 < umx6)"
  unfolding rReal_def rReal_max_def rReal_min_max_def rInt_max_def rInt_min_max_def
    rUnsignedInt_max_def rUnsignedInt_min_max_def
  by (intro conjI impI; drule redraw_until_accept; simp add: rangeCheck_def)

lemma rReal_half: "rReal (\<lambda>x. x) tape [2147483648, 0] = Some (1 / 2, [])"
  by (simp add: rReal_def rReal_pass_def rReal_value_def rangeCheck_def redraw_until.simps)

theorem uniform_samplers_in_range_witness:
  "rReal (\<lambda>x. x) tape [2147483648, 0] = Some (1 / 2, [])
   \<and> rReal_max (\<lambda>x. x) tape 5 [2147483648, 0] = Some (5 / 2, [])
   \<and> rReal_min_max (\<lambda>x. x) tape (- 3) 4 [2147483648, 0] = Some (1 / 2, [])
   \<and> rInt_max (\<lambda>x. x) tape 5 [2147483648, 0] = Some (2, [])
   \<and> rInt_min_max (\<lambda>x. x) tape (- 7) (- 2) [2147483648, 0] = Some (- 4, [])
   \<and> rUnsignedInt_max (\<lambda>x. x) tape 5 [2147483648, 0] = Some (2, [])
   \<and> rUnsignedInt_min_max (\<lambda>x. x) tape 2 7 [2147483648, 0] = Some (4, [])
   \<and> (0::real) \<le> 1 / 2 \<and> (1 / 2 ::real) < 1 \<and> (5 / 2 ::real) < 5 \<and> (- 3 ::real) \<le> 1 / 2
   \<and> (1 / 2 ::real) < 4 \<and> (0::int) \<le> 2 \<and> (2::int) < 5 \<and> (- 7 ::int) \<le> - 4
   \<and> (- 4 ::int) < - 2 \<and> (2::nat) < 5 \<and> (2::nat) \<le> 4 \<and> (4::nat) < 7"
proof -
  let ?t = "[2147483648, 0] :: 32 word list"
  have a: "rReal_max (\<lambda>x. x) tape 5 ?t = Some (5 / 2, [])"
    by (simp add: rReal_max_def rReal_half rangeCheck_def redraw_until.simps)
  have b: "rReal_min_max (\<lambda>x. x) tape (- 3) 4 ?t = Some (1 / 2, [])"
    by (simp add: rReal_min_max_def rReal_half rangeCheck_def redraw_until.simps)
  have b': "rReal_min_max (\<lambda>x. x) tape (- 7) (- 2) ?t = Some (- 9 / 2, [])"
    by (simp add: rReal_min_max_def rReal_half rangeCheck_def redraw_until.simps)
  have b'': "rReal_min_max (\<lambda>x. x) tape 2 7 ?t = Some (9 / 2, [])"
    by (simp add: rReal_min_max_def rReal_half rangeCheck_def redraw_until.simps)
  have c: "rInt_max (\<lambda>x. x) tape 5 ?t = Some (2, [])"
    by (simp add: rInt_max_def a rangeCheck_def trunc_int_def redraw_until.simps)
  have d: "rInt_min_max (\<lambda>x. x) tape (- 7) (- 2) ?t = Some (- 4, [])"
    using b' by (simp add: rInt_min_max_def rangeCheck_def trunc_int_def redraw_until.simps)
  have e: "rUnsignedInt_max (\<lambda>x. x) tape 5 ?t = Some (2, [])"
    by (simp add: rUnsignedInt_max_def a rangeCheck_def trunc_uint_def trunc_int_def
        redraw_until.simps)
  have f: "rUnsignedInt_min_max (\<lambda>x. x) tape 2 7 ?t = Some (4, [])"
    using b'' by (simp add: rUnsignedInt_min_max_def rangeCheck_def trunc_uint_def trunc_int_def
        redraw_until.simps)
  show ?thesis
    using uniform_samplers_in_range [of "\<lambda>x. x" tape ?t "1 / 2" "[]" 5 ?t "5 / 2" "[]"
        "- 3" 4 ?t "1 / 2" "[]" 5 ?t 2 "[]" "- 7" "- 2" ?t "- 4" "[]" 5 ?t 2 "[]" 2 7 ?t 4 "[]"]
      rReal_half a b c d e f
    by simp
qed

subsection \<open>The logarithm of the factorial\<close>








lemma LnFac_no_error: "0 \<le> n \<Longrightarrow> fst (LnFac rd n st) \<noteq> Inl e"
  by (simp add: LnFac_def Let_def)




subsection \<open>The Poisson sampler\<close>

lemma double_1Em6_bounds: "0 < double_1Em6 \<and> double_1Em6 \<le> 1 / 10 ^ 6"
  by (simp add: double_1Em6_def)

lemma poisson_walk_range:
  "poisson_walk rd Lambda r f x = Some v \<Longrightarrow> x \<le> v \<and> (x \<le> 130 \<longrightarrow> v \<le> 130)"
proof (induction rd Lambda r f x rule: poisson_walk.induct)
  case (1 rd Lambda r f x)
  show ?case
  proof (cases "rd (r - f) \<le> 0")
    case True
    then show ?thesis using "1.prems" by (subst (asm) poisson_walk.simps) simp
  next
    case False
    show ?thesis
    proof (cases "x + 1 \<le> 130")
      case True
      with False "1.prems"
      have "poisson_walk rd Lambda (rd (rd (r - f) * real_of_int (x + 1))) (rd (f * Lambda)) (x + 1)
            = Some v"
        by (subst (asm) poisson_walk.simps) (simp add: Let_def)
      from "1.IH" [OF refl False refl refl refl True this] True show ?thesis by simp
    next
      case F2: False
      with False "1.prems" show ?thesis
        by (subst (asm) poisson_walk.simps) (simp add: Let_def)
    qed
  qed
qed

lemma poisson_direct_range:
  assumes "poisson_direct rd nxt Lambda g = Some (v, g')"
  shows "0 \<le> v \<and> v \<le> 130"
proof -
  from assms have "redraw_until (poisson_direct_pass rd nxt Lambda) (\<lambda>res. res \<noteq> None) g
                   = Some (Some v, g')"
    by (auto simp: poisson_direct_def split: option.splits prod.splits)
  from redraw_until_last [OF this] obtain t where
    "poisson_direct_pass rd nxt Lambda t = Some (Some v, g')" by blast
  then obtain r where "poisson_walk rd Lambda r (rd (exp (- Lambda))) 0 = Some v"
    by (auto simp: poisson_direct_pass_def Let_def split: option.splits prod.splits)
  from poisson_walk_range [OF this] show ?thesis by simp
qed

text \<open>
  Claim C10. For \<open>1e-6 \<le> Lambda < 17\<close> every count that \<^verbatim>\<open>poissonrInt\<close> returns lies in
  \<open>[0, 130]\<close>: the walk returns its counter only while the counter has not passed the
  bound, and a walk that passes the bound is abandoned for a fresh draw.
\<close>

theorem poissonrInt_direct_bound:
  "1 / 10 ^ 6 \<le> Lambda \<Longrightarrow> Lambda < 17 \<Longrightarrow>
   poissonrInt rd nxt Lambda (g, st) = Some (Inr v, g', st') \<Longrightarrow> 0 \<le> v \<and> v \<le> 130"
  using double_1Em6_bounds
  by (auto simp: poissonrInt_def split: option.splits prod.splits dest: poisson_direct_range)

lemma exp_minus_one_bounds: "1 / 3 \<le> exp (- 1 :: real) \<and> exp (- 1 :: real) \<le> 1 / 2"
proof -
  have a: "2 \<le> exp (1 :: real)" using exp_ge_add_one_self [of "1 :: real"] by simp
  have b: "exp (1 :: real) \<le> 3" by (rule exp_le)
  have c: "exp (- 1 :: real) = 1 / exp 1" by (simp add: exp_minus inverse_eq_divide)
  show ?thesis unfolding c using a b by (simp add: field_simps)
qed

lemma walk_example: "poisson_walk (\<lambda>x. x) 1 (5 / 8) (exp (- 1)) 0 = Some 1"
proof -
  have p: "\<not> 5 / 8 - exp (- 1 :: real) \<le> 0" using exp_minus_one_bounds by linarith
  have q: "5 / 8 - exp (- 1 :: real) - exp (- 1) \<le> 0" using exp_minus_one_bounds by linarith
  have "poisson_walk (\<lambda>x. x) 1 (5 / 8 - exp (- 1)) (exp (- 1)) 1 = Some 1"
    using q by (subst poisson_walk.simps) simp
  then show ?thesis using p by (subst poisson_walk.simps) (simp add: Let_def)
qed

lemma direct_example:
  "poissonrInt (\<lambda>x. x) tape 1 ([2684354560, 0], LnFac_static_start)
   = Some (Inr 1, [], LnFac_static_start)"
proof -
  have u: "rReal (\<lambda>x. x) tape [2684354560, 0] = Some (5 / 8, [])"
    by (simp add: tape_pass rReal_value_def)
  show ?thesis
    by (simp add: poissonrInt_def double_1Em6_def poisson_direct_def poisson_direct_pass_def u
        walk_example
        redraw_until.simps)
qed

theorem poissonrInt_direct_bound_witness:
  "(1 / 10 ^ 6 :: real) \<le> 1 \<and> (1 :: real) < 17
   \<and> poissonrInt (\<lambda>x. x) tape 1 ([2684354560, 0], LnFac_static_start)
       = Some (Inr 1, [], LnFac_static_start)
   \<and> (0 :: int) \<le> 1 \<and> (1 :: int) \<le> 130"
  using poissonrInt_direct_bound [of 1 "\<lambda>x. x" tape "[2684354560, 0]" LnFac_static_start 1 "[]"
      LnFac_static_start] direct_example
  by simp

lemma trunc_int_nonneg: "0 \<le> x \<Longrightarrow> 0 \<le> trunc_int x"
  by (simp add: trunc_int_def)

lemma poisson_ratio_pass_no_error:
  "poisson_ratio_pass rd nxt pois_a pois_h pois_g pois_f0 pois_bound s \<noteq> Some (Inl e, s')"
proof -
  have "fst (LnFac rd (trunc_int x) st) \<noteq> Inl e'" if "\<not> x < 0" for x st e'
    using that by (intro LnFac_no_error trunc_int_nonneg) simp
  then have *: "LnFac rd (trunc_int x) st \<noteq> (Inl e', st'')" if "\<not> x < 0" for x st e' st''
    using that by (metis fst_conv)
  show ?thesis
    by (cases s)
       (auto simp: poisson_ratio_pass_def Let_def * split: option.splits prod.splits sum.splits)
qed

lemma poisson_ratio_no_error:
  assumes "17 \<le> Lambda"
  shows "poisson_ratio rd nxt Lambda s \<noteq> Some (Inl e, s')"
proof
  assume a: "poisson_ratio rd nxt Lambda s = Some (Inl e, s')"
  obtain g st where s: "s = (g, st)" by (cases s)
  have "0 \<le> trunc_int Lambda" using assms by (intro trunc_int_nonneg) simp
  then have "fst (LnFac rd (trunc_int Lambda) st) \<noteq> Inl e'" for e'
    by (rule LnFac_no_error)
  then obtain lm st1 where l: "LnFac rd (trunc_int Lambda) st = (Inr lm, st1)"
    by (cases "LnFac rd (trunc_int Lambda) st"; cases "fst (LnFac rd (trunc_int Lambda) st)") auto
  define pa where "pa = rd (Lambda + 0.5)"
  define pg where "pg = rd (ln Lambda)"
  define pf where "pf = rd (rd (real_of_int (trunc_int Lambda) * pg) - lm)"
  define ph where "ph = rd (rd (sqrt (rd (SHAT1 * pa))) + SHAT2)"
  define pb where "pb = trunc_int (rd (pa + rd (6 * ph)))"
  from a have
    "redraw_until (poisson_ratio_pass rd nxt pa ph pg pf pb) (\<lambda>res. res \<noteq> Inr None) (g, st1)
     = Some (Inl e, s')"
    unfolding pa_def pg_def pf_def ph_def pb_def
    by (auto simp: poisson_ratio_def s l Let_def split: option.splits prod.splits sum.splits)
  from redraw_until_last [OF this] obtain t where
    "poisson_ratio_pass rd nxt pa ph pg pf pb t = Some (Inl e, s')" by blast
  then show False using poisson_ratio_pass_no_error by blast
qed

text \<open>
  Claim C2. \<^verbatim>\<open>poissonrInt\<close> ends in an exception exactly when \<open>Lambda < 0\<close> or
  \<open>Lambda > 2e9\<close>, the exception is then the invalid-argument one and nothing has been
  drawn; for \<open>Lambda = 0\<close> it returns 0 in every state without drawing.
\<close>

theorem poissonrInt_errors:
  "((\<exists>e s'. poissonrInt rd nxt Lambda s = Some (Inl e, s')) \<longleftrightarrow> Lambda < 0 \<or> 2000000000 < Lambda)
   \<and> (Lambda < 0 \<or> 2000000000 < Lambda \<longrightarrow>
        poissonrInt rd nxt Lambda s = Some (Inl InvalidArgument, s))
   \<and> poissonrInt rd nxt 0 s = Some (Inr 0, s)"
proof (intro conjI iffI impI)
  assume "\<exists>e s'. poissonrInt rd nxt Lambda s = Some (Inl e, s')"
  then obtain e s' where a: "poissonrInt rd nxt Lambda s = Some (Inl e, s')" by blast
  show "Lambda < 0 \<or> 2000000000 < Lambda"
  proof (rule ccontr)
    assume "\<not> (Lambda < 0 \<or> 2000000000 < Lambda)"
    then have r: "0 \<le> Lambda" "Lambda \<le> 2000000000" by simp_all
    show False
    proof (cases "Lambda < 17")
      case True
      with a r show False
        by (cases s) (auto simp: poissonrInt_def split: option.splits prod.splits if_splits)
    next
      case False
      with a r have "poisson_ratio rd nxt Lambda s = Some (Inl e, s')"
        by (cases s) (simp add: poissonrInt_def)
      moreover have "17 \<le> Lambda" using False by simp
      ultimately show False using poisson_ratio_no_error by blast
    qed
  qed
next
  assume "Lambda < 0 \<or> 2000000000 < Lambda"
  then have "poissonrInt rd nxt Lambda s = Some (Inl InvalidArgument, s)"
    using double_1Em6_bounds by (cases s) (auto simp: poissonrInt_def)
  then show "\<exists>e s'. poissonrInt rd nxt Lambda s = Some (Inl e, s')" by blast
next
  assume "Lambda < 0 \<or> 2000000000 < Lambda"
  then show "poissonrInt rd nxt Lambda s = Some (Inl InvalidArgument, s)"
    using double_1Em6_bounds by (cases s) (auto simp: poissonrInt_def)
next
  show "poissonrInt rd nxt 0 s = Some (Inr 0, s)"
    by (cases s) (simp add: poissonrInt_def double_1Em6_def)
qed

lemma poisson_ratio_example:
  "poissonrInt (\<lambda>x. x) tape 17 ([2147483648, 0, 2147483648, 0], LnFac_static_start)
   = Some (Inr 17, [], snd (LnFac (\<lambda>x. x) 17 LnFac_static_start))"
proof -
  define st1 where "st1 = snd (LnFac (\<lambda>x. x) 17 LnFac_static_start)"
  define T where "T = fac_table st1 ! 17"
  have i: "initialized st1" by (simp add: st1_def LnFac_def LnFac_static_start_def)
  have l0: "LnFac (\<lambda>x. x) 17 LnFac_static_start = (Inr T, st1)"
    by (simp add: T_def st1_def LnFac_def Let_def)
  have l1: "LnFac (\<lambda>x. x) 17 st1 = (Inr T, st1)"
    using i by (simp add: T_def LnFac_def Let_def)
  have u: "rReal (\<lambda>x. x) tape (2147483648 # 0 # ws) = Some (1 / 2, ws)" for ws
    by (simp add: tape_pass rReal_value_def)
  have t: "trunc_int (35 / 2) = 17" "trunc_int 17 = 17"
    by (simp_all add: trunc_int_def)
  have loop: "redraw_until (poisson_ratio_pass (\<lambda>x. x) tape (35 / 2) ph (ln 17) (17 * ln 17 - T) pb)
                (\<lambda>res. res \<noteq> Inr None) ([2147483648, 0, 2147483648, 0], st1)
              = Some (Inr (Some 17), [], st1)" if "35 / 2 < real_of_int pb" for ph pb
  proof -
    have "poisson_ratio_pass (\<lambda>x. x) tape (35 / 2) ph (ln 17) (17 * ln 17 - T) pb
            ([2147483648, 0, 2147483648, 0], st1) = Some (Inr (Some 17), [], st1)"
      using that by (simp add: poisson_ratio_pass_def u t l1 Let_def)
    then show ?thesis by (subst redraw_until.simps) simp
  qed
  have "0 \<le> sqrt (SHAT1 * 35 / 2)" by (simp add: SHAT1_def)
  moreover have "1 / 2 \<le> SHAT2" by (simp add: SHAT2_def)
  ultimately have "18 \<le> 35 / 2 + (6 * sqrt (SHAT1 * 35 / 2) + 6 * SHAT2)" by linarith
  then have "18 \<le> \<lfloor>35 / 2 + (6 * sqrt (SHAT1 * 35 / 2) + 6 * SHAT2)\<rfloor>"
    "0 \<le> 35 / 2 + (6 * sqrt (SHAT1 * 35 / 2) + 6 * SHAT2)" by linarith+
  then have "18 \<le> trunc_int (35 / 2 + (6 * sqrt (SHAT1 * 35 / 2) + 6 * SHAT2))"
    by (simp add: trunc_int_def)
  then have b: "35 / 2 < real_of_int (trunc_int (35 / 2 + (6 * sqrt (SHAT1 * 35 / 2) + 6 * SHAT2)))"
    by linarith
  show ?thesis
    unfolding st1_def [symmetric]
    by (simp add: poissonrInt_def poisson_ratio_def l0 t Let_def loop [OF b])
qed

theorem poissonrInt_errors_witness:
  "poissonrInt (\<lambda>x. x) tape (- 1) ([7, 9], LnFac_static_start)
     = Some (Inl InvalidArgument, [7, 9], LnFac_static_start)
   \<and> poissonrInt (\<lambda>x. x) tape 3000000000 ([7, 9], LnFac_static_start)
     = Some (Inl InvalidArgument, [7, 9], LnFac_static_start)
   \<and> poissonrInt (\<lambda>x. x) tape 0 ([7, 9], LnFac_static_start)
     = Some (Inr 0, [7, 9], LnFac_static_start)
   \<and> poissonrInt (\<lambda>x. x) tape 1 ([2684354560, 0], LnFac_static_start)
     = Some (Inr 1, [], LnFac_static_start)
   \<and> \<not> (\<exists>e s'. poissonrInt (\<lambda>x. x) tape 1 ([2684354560, 0], LnFac_static_start)
               = Some (Inl e, s'))
   \<and> poissonrInt (\<lambda>x. x) tape 17 ([2147483648, 0, 2147483648, 0], LnFac_static_start)
     = Some (Inr 17, [], snd (LnFac (\<lambda>x. x) 17 LnFac_static_start))
   \<and> \<not> (\<exists>e s'. poissonrInt (\<lambda>x. x) tape 17
                 ([2147483648, 0, 2147483648, 0], LnFac_static_start) = Some (Inl e, s'))"
  using poissonrInt_errors [of "\<lambda>x. x" tape "- 1" "([7, 9], LnFac_static_start)"]
    poissonrInt_errors [of "\<lambda>x. x" tape 3000000000 "([7, 9], LnFac_static_start)"]
    poissonrInt_errors [of "\<lambda>x. x" tape 1 "([2684354560, 0], LnFac_static_start)"]
    poissonrInt_errors [of "\<lambda>x. x" tape 17
      "([2147483648, 0, 2147483648, 0], LnFac_static_start)"]
    direct_example poisson_ratio_example
  by simp

subsection \<open>The normal sampler\<close>

lemma rReal_min_max_range:
  "rReal_min_max rd nxt mn mx g = Some (v, g') \<Longrightarrow> mn \<le> v \<and> v < mx"
  unfolding rReal_min_max_def by (drule redraw_until_accept) (simp add: rangeCheck_def)

lemma normal_accept_eq:
  "(\<lambda>(x1 :: real, x2 :: real, w :: real). \<not> (w \<ge> 1 \<or> w < 1 / 10 ^ 30))
   = (\<lambda>(x1, x2, w). 1 / 10 ^ 30 \<le> w \<and> w < 1)"
  by (auto simp: fun_eq_iff)

lemma pass1: "normal_pass (\<lambda>x. x) tape [2147483648, 2048, 2147483648, 0, 3221225472, 0, 2147483648, 0]
   = Some ((1 / 2 ^ 52, 0, 1 / 2 ^ 104), [3221225472, 0, 2147483648, 0])"
  by (simp add: normal_pass_def rReal_min_max_def tape_pass rReal_value_def rangeCheck_def
      redraw_until.simps)

lemma pass2: "normal_pass (\<lambda>x. x) tape [3221225472, 0, 2147483648, 0]
   = Some ((1 / 2, 0, 1 / 4), [])"
  by (simp add: normal_pass_def rReal_min_max_def tape_pass rReal_value_def rangeCheck_def
      redraw_until.simps)

text \<open>
  Claim C5, as stated, fails. The first pair drawn from the words below is
  \<open>x1 = 2^-52\<close>, \<open>x2 = 0\<close> with \<open>0 < x1 * x1 + x2 * x2 = 2^-104 < 1\<close>; every operation
  on the way is exact in \<^verbatim>\<open>double\<close>. The sampler as claimed accepts this pair after four
  words. The code rejects it, because \<open>2^-104 < 1E-30\<close>, and returns the value of the next
  pair after eight words. Moreover a draw can be \<open>-1\<close> itself: four zero words give the
  pair \<open>(-1, -1)\<close>.
\<close>

theorem normalrReal_counterexample:
  "normal_pass (\<lambda>x. x) tape [2147483648, 2048, 2147483648, 0, 3221225472, 0, 2147483648, 0]
     = Some ((1 / 2 ^ 52, 0, 1 / 2 ^ 104), [3221225472, 0, 2147483648, 0])
   \<and> 0 < (1 / 2 ^ 104 :: real) \<and> (1 / 2 ^ 104 :: real) < 1
   \<and> normal_pass (\<lambda>x. x) tape [0, 0, 0, 0] = Some ((- 1, - 1, 2), [])
   \<and> normalrReal_as_claimed (\<lambda>x. x) tape 0 1
        [2147483648, 2048, 2147483648, 0, 3221225472, 0, 2147483648, 0]
     = Some (normal_value (\<lambda>x. x) (1 / 2 ^ 52) (1 / 2 ^ 104) 0 1, [3221225472, 0, 2147483648, 0])
   \<and> normalrReal (\<lambda>x. x) tape 0 1
        [2147483648, 2048, 2147483648, 0, 3221225472, 0, 2147483648, 0]
     = Some (normal_value (\<lambda>x. x) (1 / 2) (1 / 4) 0 1, [])
   \<and> normalrReal (\<lambda>x. x) tape 0 1
        [2147483648, 2048, 2147483648, 0, 3221225472, 0, 2147483648, 0]
     \<noteq> normalrReal_as_claimed (\<lambda>x. x) tape 0 1
        [2147483648, 2048, 2147483648, 0, 3221225472, 0, 2147483648, 0]"
proof -
  let ?T = "[2147483648, 2048, 2147483648, 0, 3221225472, 0, 2147483648, 0] :: 32 word list"
  have c: "normalrReal_as_claimed (\<lambda>x. x) tape 0 1 ?T
     = Some (normal_value (\<lambda>x. x) (1 / 2 ^ 52) (1 / 2 ^ 104) 0 1, [3221225472, 0, 2147483648, 0])"
    unfolding normalrReal_as_claimed_def
    by (subst redraw_until.simps) (simp add: pass1)
  have n: "normalrReal (\<lambda>x. x) tape 0 1 ?T = Some (normal_value (\<lambda>x. x) (1 / 2) (1 / 4) 0 1, [])"
    unfolding normalrReal_def
    by (subst redraw_until.simps, simp add: pass1, subst redraw_until.simps, simp add: pass2)
  have d: "normal_pass (\<lambda>x. x) tape [0, 0, 0, 0] = Some ((- 1, - 1, 2), [])"
    by (simp add: normal_pass_def rReal_min_max_def tape_pass rReal_value_def rangeCheck_def
        redraw_until.simps)
  show ?thesis
    unfolding c n using pass1 d by simp
qed

text \<open>
  Claim C5, amended. \<^verbatim>\<open>normalrReal\<close> returns \<open>v\<close> in state \<open>g'\<close> exactly when the first pass
  whose \<open>w\<close> satisfies \<open>1E-30 \<le> w < 1\<close> ends in \<open>g'\<close> and \<open>v\<close> is the value computed from
  that pass. Every pass draws \<open>x1\<close> and \<open>x2\<close> from \<open>[-1, 1)\<close> and has
  \<open>w = x1 * x1 + x2 * x2\<close>; in exact arithmetic the value is
  \<open>x1 * sqrt (-2 * ln w / w) * stddev + mean\<close>.
\<close>

theorem normalrReal_polar:
  "(normalrReal rd nxt mean stddev g = Some (v, g') \<longleftrightarrow>
      (\<exists>x1 x2 w. redraw_run (normal_pass rd nxt) (\<lambda>(x1, x2, w). 1 / 10 ^ 30 \<le> w \<and> w < 1) g
                   ((x1, x2, w), g')
                 \<and> v = normal_value rd x1 w mean stddev))
   \<and> (normal_pass rd nxt g2 = Some ((y1, y2, s), h) \<longrightarrow>
        - 1 \<le> y1 \<and> y1 < 1 \<and> - 1 \<le> y2 \<and> y2 < 1 \<and> s = rd (rd (y1 * y1) + rd (y2 * y2)))
   \<and> normal_value (\<lambda>x. x) y1 s mean stddev = y1 * sqrt (- 2 * ln s / s) * stddev + mean"
proof (intro conjI)
  show "normalrReal rd nxt mean stddev g = Some (v, g') \<longleftrightarrow>
      (\<exists>x1 x2 w. redraw_run (normal_pass rd nxt) (\<lambda>(x1, x2, w). 1 / 10 ^ 30 \<le> w \<and> w < 1) g
                   ((x1, x2, w), g')
                 \<and> v = normal_value rd x1 w mean stddev)"
  proof
    assume "normalrReal rd nxt mean stddev g = Some (v, g')"
    then obtain x1 x2 w where
      u: "redraw_until (normal_pass rd nxt) (\<lambda>(x1, x2, w). 1 / 10 ^ 30 \<le> w \<and> w < 1) g
       = Some ((x1, x2, w), g')" and v: "v = normal_value rd x1 w mean stddev"
      unfolding normalrReal_def normal_accept_eq
      by (auto split: option.splits prod.splits)
    from redraw_until_imp [OF u] v show "\<exists>x1 x2 w. redraw_run (normal_pass rd nxt) (\<lambda>(x1, x2, w). 1 / 10 ^ 30 \<le> w \<and> w < 1) g
                   ((x1, x2, w), g') \<and> v = normal_value rd x1 w mean stddev"
      by (intro exI [of _ x1] exI [of _ x2] exI [of _ w] conjI)
  next
    assume "\<exists>x1 x2 w. redraw_run (normal_pass rd nxt) (\<lambda>(x1, x2, w). 1 / 10 ^ 30 \<le> w \<and> w < 1) g
                   ((x1, x2, w), g') \<and> v = normal_value rd x1 w mean stddev"
    then obtain x1 x2 w where
      r: "redraw_run (normal_pass rd nxt) (\<lambda>(x1, x2, w). 1 / 10 ^ 30 \<le> w \<and> w < 1) g
            ((x1, x2, w), g')" and v: "v = normal_value rd x1 w mean stddev" by blast
    from redraw_run_imp [OF r] v show "normalrReal rd nxt mean stddev g = Some (v, g')"
      unfolding normalrReal_def normal_accept_eq by simp
  qed
next
  show "normal_pass rd nxt g2 = Some ((y1, y2, s), h) \<longrightarrow>
        - 1 \<le> y1 \<and> y1 < 1 \<and> - 1 \<le> y2 \<and> y2 < 1 \<and> s = rd (rd (y1 * y1) + rd (y2 * y2))"
    by (auto simp: normal_pass_def split: option.splits prod.splits dest: rReal_min_max_range)
next
  show "normal_value (\<lambda>x. x) y1 s mean stddev = y1 * sqrt (- 2 * ln s / s) * stddev + mean"
    by (simp add: normal_value_def)
qed

theorem normalrReal_polar_witness:
  "redraw_run (normal_pass (\<lambda>x. x) tape) (\<lambda>(x1, x2, w). 1 / 10 ^ 30 \<le> w \<and> w < 1)
     [2147483648, 2048, 2147483648, 0, 3221225472, 0, 2147483648, 0] ((1 / 2, 0, 1 / 4), [])
   \<and> normalrReal (\<lambda>x. x) tape 0 1 [2147483648, 2048, 2147483648, 0, 3221225472, 0, 2147483648, 0]
       = Some (1 / 2 * sqrt (- 2 * ln (1 / 4) / (1 / 4)) * 1 + 0, [])
   \<and> normal_pass (\<lambda>x. x) tape [3221225472, 0, 2147483648, 0] = Some ((1 / 2, 0, 1 / 4), [])
   \<and> (- 1 :: real) \<le> 1 / 2 \<and> (1 / 2 :: real) < 1 \<and> (- 1 :: real) \<le> 0 \<and> (0 :: real) < 1
   \<and> (1 / 4 :: real) = 1 / 2 * (1 / 2) + 0 * 0"
proof -
  let ?T = "[2147483648, 2048, 2147483648, 0, 3221225472, 0, 2147483648, 0] :: 32 word list"
  let ?acc = "\<lambda>(x1 :: real, x2 :: real, w :: real). 1 / 10 ^ 30 \<le> w \<and> w < 1"
  have run: "redraw_run (normal_pass (\<lambda>x. x) tape) ?acc ?T ((1 / 2, 0, 1 / 4), [])"
  proof (rule redraw_run.rejected [of _ ?T "(1 / 2 ^ 52, 0, 1 / 2 ^ 104)"
        "[3221225472, 0, 2147483648, 0]"])
    show "normal_pass (\<lambda>x. x) tape ?T
          = Some ((1 / 2 ^ 52, 0, 1 / 2 ^ 104), [3221225472, 0, 2147483648, 0])" by (rule pass1)
    show "\<not> ?acc (1 / 2 ^ 52, 0, 1 / 2 ^ 104)" by simp
    show "redraw_run (normal_pass (\<lambda>x. x) tape) ?acc [3221225472, 0, 2147483648, 0]
            ((1 / 2, 0, 1 / 4), [])"
      by (rule redraw_run.accepted) (simp_all add: pass2)
  qed
  note inst = normalrReal_polar [of "\<lambda>x. x" tape 0 1 ?T
      "1 / 2 * sqrt (- 2 * ln (1 / 4) / (1 / 4)) * 1 + 0" "[]"
      "[3221225472, 0, 2147483648, 0]" "1 / 2" 0 "1 / 4" "[]"]
  have val: "normal_value (\<lambda>x. x) (1 / 2) (1 / 4) 0 1
             = 1 / 2 * sqrt (- 2 * ln (1 / 4) / (1 / 4)) * 1 + 0"
    using inst by blast
  have ret: "normalrReal (\<lambda>x. x) tape 0 1 ?T
             = Some (1 / 2 * sqrt (- 2 * ln (1 / 4) / (1 / 4)) * 1 + 0, [])"
    by (rule inst [THEN conjunct1, THEN iffD2])
       (intro exI [of _ "1 / 2"] exI [of _ 0] exI [of _ "1 / 4"] conjI run val [symmetric])
  have rng: "(- 1 :: real) \<le> 1 / 2 \<and> (1 / 2 :: real) < 1 \<and> (- 1 :: real) \<le> 0 \<and> (0 :: real) < 1
      \<and> (1 / 4 :: real) = 1 / 2 * (1 / 2) + 0 * 0"
    using inst [THEN conjunct2, THEN conjunct1] pass2 by blast
  show ?thesis using run ret pass2 rng by blast
qed

subsection \<open>Re-seeding\<close>

text \<open>
  Claim C7. After \<^verbatim>\<open>reSeed ( s )\<close> a generator, whatever its state was, is in the state of
  a freshly constructed \<^verbatim>\<open>RandomGenerator ( s )\<close>: \<^verbatim>\<open>getSeed\<close> returns \<open>s\<close>, and every raw
  word and every later state agree with those of the fresh generator, for any function
  that produces words from states. Re-seeding the generator at one address leaves the
  generator at every other address as it was.
\<close>

theorem reSeed_as_fresh:
  "reSeed step s g = RandomGenerator_new step s
   \<and> getSeed (reSeed step s g) = s
   \<and> raw_word nxt (reSeed step s g) i = raw_word nxt (RandomGenerator_new step s) i
   \<and> after_words nxt (reSeed step s g) i = after_words nxt (RandomGenerator_new step s) i
   \<and> (store a = Some g \<longrightarrow> reSeed_at step a s store a = Some (RandomGenerator_new step s))
   \<and> (b \<noteq> a \<longrightarrow> reSeed_at step a s store b = store b)"
proof -
  have eq: "reSeed step s g = RandomGenerator_new step s"
    by (cases g) (simp add: reSeed_def RandomGenerator_new_def initializeY_def)
  have sd: "getSeed (RandomGenerator_new step s) = s"
    by (simp add: getSeed_def RandomGenerator_new_def initializeY_def)
  show ?thesis
    unfolding eq using sd
    by (auto simp: reSeed_at_def eq split: option.splits)
qed

theorem reSeed_as_fresh_witness:
  "reSeed_at (\<lambda>i w. 69069 * w + 1) 0 5
     [0 \<mapsto> RandomGenerator_new (\<lambda>i w. 69069 * w + 1) 1,
      1 \<mapsto> RandomGenerator_new (\<lambda>i w. 69069 * w + 1) 2] 0
     = Some (RandomGenerator_new (\<lambda>i w. 69069 * w + 1) 5)
   \<and> (1::nat) \<noteq> 0
   \<and> reSeed_at (\<lambda>i w. 69069 * w + 1) 0 5
     [0 \<mapsto> RandomGenerator_new (\<lambda>i w. 69069 * w + 1) 1,
      1 \<mapsto> RandomGenerator_new (\<lambda>i w. 69069 * w + 1) 2] 1
     = Some (RandomGenerator_new (\<lambda>i w. 69069 * w + 1) 2)
   \<and> getSeed (reSeed (\<lambda>i w. 69069 * w + 1) 5 (RandomGenerator_new (\<lambda>i w. 69069 * w + 1) 1)) = 5"
proof -
  let ?step = "\<lambda>(i :: nat) (w :: 32 word). 69069 * w + 1"
  let ?store = "[0 \<mapsto> RandomGenerator_new ?step 1, 1 \<mapsto> RandomGenerator_new ?step 2]"
  show ?thesis
    using reSeed_as_fresh [of ?step 5 "RandomGenerator_new ?step 1" "\<lambda>g. (seed g, g)" 0 ?store
        0 1]
    by auto
qed

subsection \<open>Copying\<close>

text \<open>
  Claim C8. Copy construction and assignment of a generator raise UnsupportedOperation
  whatever the state of the generators involved; neither ever yields a generator, so the
  live state is never duplicated this way.
\<close>

theorem copy_assign_unsupported:
  "RandomGenerator_copy g = Inl UnsupportedOperation
   \<and> RandomGenerator_assign g h = Inl UnsupportedOperation
   \<and> (\<forall>r. RandomGenerator_copy g \<noteq> Inr r \<and> RandomGenerator_assign g h \<noteq> Inr r)"
  by (simp add: RandomGenerator_copy_def RandomGenerator_assign_def)

subsection \<open>Distance accessors\<close>

text \<open>
  Claim C1, as stated, fails for the unscaled accessors. On an object on which no
  comparison has run, \<^verbatim>\<open>getL2Dist\<close>, \<^verbatim>\<open>getLInfDist\<close>, \<^verbatim>\<open>getKSDist\<close> and \<^verbatim>\<open>getCvMDist\<close>
  return the stored field; none of them raises.
\<close>

theorem unscaled_accessors_counterexample:
  "compared \<lparr>base = \<lparr>nSamples = 8, L2Dist = 0, LInfDist = 0, CvMDist = 0\<rparr>, compared = False\<rparr> = False
   \<and> getL2Dist (base \<lparr>base = \<lparr>nSamples = 8, L2Dist = 0, LInfDist = 0, CvMDist = 0\<rparr>,
                       compared = False\<rparr>) = Inr 0
   \<and> getL2Dist (base \<lparr>base = \<lparr>nSamples = 8, L2Dist = 0, LInfDist = 0, CvMDist = 0\<rparr>,
                       compared = False\<rparr>) \<noteq> Inl PreconditionViolation
   \<and> getLInfDist (base \<lparr>base = \<lparr>nSamples = 8, L2Dist = 0, LInfDist = 0, CvMDist = 0\<rparr>,
                         compared = False\<rparr>) \<noteq> Inl PreconditionViolation
   \<and> getKSDist (base \<lparr>base = \<lparr>nSamples = 8, L2Dist = 0, LInfDist = 0, CvMDist = 0\<rparr>,
                       compared = False\<rparr>) \<noteq> Inl PreconditionViolation
   \<and> getCvMDist (base \<lparr>base = \<lparr>nSamples = 8, L2Dist = 0, LInfDist = 0, CvMDist = 0\<rparr>,
                        compared = False\<rparr>) \<noteq> Inl PreconditionViolation"
  by (simp add: getL2Dist_def getLInfDist_def getKSDist_def getCvMDist_def)

text \<open>
  Claim C1, amended. Before a comparison has run, the three scaled accessors raise the
  precondition violation; after \<^verbatim>\<open>computePDFdistTo\<close> they return the distance it stored,
  scaled by the sample-size factor. The four unscaled accessors return the stored field in
  every state of the object and never raise.
\<close>

theorem distance_accessors:
  "(\<not> compared this \<longrightarrow>
      getScaledKSDistanceTo this other = Inl PreconditionViolation
      \<and> getScaledCvMDistanceTo this other = Inl PreconditionViolation
      \<and> getScaledL2DistanceTo this other = Inl PreconditionViolation)
   \<and> getScaledKSDistanceTo (computePDFdistTo (l2, linf, cvm) this) other
       = Inr (sample_size_factor (nSamples (base this)) (nSamples (base other)) * linf)
   \<and> getScaledCvMDistanceTo (computePDFdistTo (l2, linf, cvm) this) other
       = Inr (sample_size_factor (nSamples (base this)) (nSamples (base other)) * cvm)
   \<and> getScaledL2DistanceTo (computePDFdistTo (l2, linf, cvm) this) other
       = Inr (sample_size_factor (nSamples (base this)) (nSamples (base other)) * l2)
   \<and> getL2Dist (base this) = Inr (L2Dist (base this))
   \<and> getLInfDist (base this) = Inr (LInfDist (base this))
   \<and> getKSDist (base this) = Inr (LInfDist (base this))
   \<and> getCvMDist (base this) = Inr (CvMDist (base this))"
  by (simp add: getScaledKSDistanceTo_def getScaledCvMDistanceTo_def getScaledL2DistanceTo_def
      computePDFdistTo_def getL2Dist_def getLInfDist_def getKSDist_def getCvMDist_def)

theorem distance_accessors_witness:
  "\<not> compared \<lparr>base = \<lparr>nSamples = 8, L2Dist = 0, LInfDist = 0, CvMDist = 0\<rparr>, compared = False\<rparr>
   \<and> getScaledKSDistanceTo
        \<lparr>base = \<lparr>nSamples = 8, L2Dist = 0, LInfDist = 0, CvMDist = 0\<rparr>, compared = False\<rparr>
        \<lparr>base = \<lparr>nSamples = 8, L2Dist = 0, LInfDist = 0, CvMDist = 0\<rparr>, compared = False\<rparr>
       = Inl PreconditionViolation
   \<and> getScaledKSDistanceTo
        (computePDFdistTo (1 / 4, 1 / 2, 1 / 8)
           \<lparr>base = \<lparr>nSamples = 8, L2Dist = 0, LInfDist = 0, CvMDist = 0\<rparr>, compared = False\<rparr>)
        \<lparr>base = \<lparr>nSamples = 8, L2Dist = 0, LInfDist = 0, CvMDist = 0\<rparr>, compared = False\<rparr>
       = Inr (sample_size_factor 8 8 * (1 / 2))
   \<and> getKSDist (base (computePDFdistTo (1 / 4, 1 / 2, 1 / 8)
           \<lparr>base = \<lparr>nSamples = 8, L2Dist = 0, LInfDist = 0, CvMDist = 0\<rparr>, compared = False\<rparr>))
       = Inr (1 / 2)"
proof -
  let ?d = "\<lparr>base = \<lparr>nSamples = 8, L2Dist = 0, LInfDist = 0, CvMDist = 0\<rparr>, compared = False\<rparr>"
  show ?thesis
    using distance_accessors [of ?d ?d "1 / 4" "1 / 2" "1 / 8"]
      distance_accessors [of "computePDFdistTo (1 / 4, 1 / 2, 1 / 8) ?d" ?d 0 0 0]
    by (simp add: computePDFdistTo_def)
qed

subsection \<open>The sampler for a given distribution\<close>

lemma map_find_assign_same: "map_find k (map_assign k v m) = Some v"
  by (induction m) auto

lemma map_find_assign_other: "k' \<noteq> k \<Longrightarrow> map_find k' (map_assign k v m) = map_find k' m"
  by (induction m) auto

lemma first_key_Min:
  assumes "sorted_wrt (<) (map fst ((v, p) # rest))"
  shows "v = Min (fst ` set ((v, p) # rest))"
proof -
  have "\<forall>k \<in> fst ` set rest. v < k" using assms by auto
  then have "\<forall>k \<in> fst ` set ((v, p) # rest). v \<le> k" by auto
  then show ?thesis by (intro Min_eqI [symmetric]) auto
qed

lemma anchored_below:
  "rd (v - double_1Em6) < v \<Longrightarrow>
   anchored rd ((v, p) # rest) = Some ((rd (v - double_1Em6), 0) # (v, p) # rest)"
  by (simp add: anchored_def)

lemma anchored_absorbed:
  "rd (v - double_1Em6) = v \<Longrightarrow> anchored rd ((v, p) # rest) = Some ((v, 0) # rest)"
  by (simp add: anchored_def)

lemma anchored_exact:
  "anchored (\<lambda>x. x) ((v, p) # rest) = Some ((v - double_1Em6, 0) # (v, p) # rest)"
  by (rule anchored_below) (simp add: double_1Em6_def)

lemma round_binade_absorbs: "round_binade 36 (100000000000 - double_1Em6) = 100000000000"
  unfolding round_binade_def double_1Em6_def by (simp add: round_def floor_eq_iff)

text \<open>
  Claim C9, at a table whose least key is \<open>10^11\<close>. The key lies in the binade from \<open>2^36\<close>
  where neighbouring doubles are \<open>2^-16\<close> apart, so \<open>10^11 - 1.0e-6\<close> computed in \<^verbatim>\<open>double\<close>
  is \<open>10^11\<close> again. The assignment in \<^verbatim>\<open>init\<close> then overwrites the entry of the least key:
  no entry is inserted and the cumulative probability \<open>3 / 8\<close> stored there is lost, where
  the claim, and the code in exact arithmetic, have a new first entry below the least key.
  With the test for nondecreasing values, a table that is not monotonic passes after the
  overwrite and construction succeeds.
\<close>

theorem PRNGForGivenDistr1D_init_absorbs_anchor:
  "(2 ^ 36 :: real) \<le> 100000000000 - double_1Em6 \<and> (100000000000 :: real) < 2 ^ 37
   \<and> round_binade 36 (100000000000 - double_1Em6) = 100000000000
   \<and> anchored (round_binade 36) [(100000000000, 3 / 8), (200000000000, 1)]
       = Some [(100000000000, 0), (200000000000, 1)]
   \<and> anchored (\<lambda>x. x) [(100000000000, 3 / 8), (200000000000, 1)]
       = Some [(100000000000 - double_1Em6, 0), (100000000000, 3 / 8), (200000000000, 1)]
   \<and> \<not> sorted (map snd [(100000000000 :: real, 3 / 4 :: real), (200000000000, 1 / 2)])
   \<and> PRNGForGivenDistr1D_init (round_binade 36) (\<lambda>t. sorted (map snd t))
        [(100000000000, 3 / 4), (200000000000, 1 / 2)] \<lparr>vals = []\<rparr>
       = Some (Inr \<lparr>vals = [(0, 100000000000), (1 / 2, 200000000000)]\<rparr>)"
proof -
  have r: "(2 ^ 36 :: real) \<le> 100000000000 - double_1Em6 \<and> (100000000000 :: real) < 2 ^ 37"
    by (simp add: double_1Em6_def)
  have a: "anchored (round_binade 36) [(100000000000, 3 / 8), (200000000000, 1)]
           = Some [(100000000000, 0), (200000000000, 1)]"
    by (rule anchored_absorbed) (rule round_binade_absorbs)
  have b: "anchored (\<lambda>x. x) [(100000000000, 3 / 8), (200000000000, 1)]
           = Some [(100000000000 - double_1Em6, 0), (100000000000, 3 / 8), (200000000000, 1)]"
    by (rule anchored_exact)
  have n: "\<not> sorted (map snd [(100000000000 :: real, 3 / 4 :: real), (200000000000, 1 / 2)])"
    by (simp only: list.map snd_conv sorted2 sorted1) simp
  have m: "sorted (map snd [(100000000000 :: real, 0 :: real), (200000000000, 1 / 2)])"
    by (simp only: list.map snd_conv sorted2 sorted1) simp
  have c: "anchored (round_binade 36) [(100000000000, 3 / 4), (200000000000, 1 / 2)]
           = Some [(100000000000, 0), (200000000000, 1 / 2)]"
    by (rule anchored_absorbed) (rule round_binade_absorbs)
  have d: "PRNGForGivenDistr1D_init (round_binade 36) (\<lambda>t. sorted (map snd t))
        [(100000000000, 3 / 4), (200000000000, 1 / 2)] \<lparr>vals = []\<rparr>
       = Some (Inr \<lparr>vals = [(0, 100000000000), (1 / 2, 200000000000)]\<rparr>)"
    unfolding PRNGForGivenDistr1D_init_def c invertIfMonotonic_def setVals_def
    using m by (simp only: option.case DiscreteValueInterpolator.simps if_True) simp
  show ?thesis by (intro conjI r [THEN conjunct1] r [THEN conjunct2] round_binade_absorbs a b n d)
qed

end
